theory Spec2Isabelle
  imports Main
begin

section \<open>Python values: exceptions, module attributes, strings\<close>

text \<open>
  The exceptions that the synchronisation services raise, catch or let through.
  \<open>Exception msg\<close> is the bare \<^verbatim>\<open>Exception(error_message)\<close> that the handlers of
  \<^verbatim>\<open>sync_service.py\<close> raise; \<open>RemoteError\<close> stands for any other failure of a collaborator
  (transport failure, non-success status of the remote facility system).
\<close>

datatype exn =
    TypeError
  | AttributeError
  | UnboundLocalError
  | ValidationError string
  | HTTPStatusError string
  | LookupError string
  | PassException string
  | RemoteError string
  | Exception string

text \<open>
  A Python module is a table of attribute names. A function is recorded with the number of
  positional parameters of its signature (none of the functions of \<^verbatim>\<open>pass_service.py\<close> has a
  default or a starred parameter), anything else as a class or a plain value.
\<close>

datatype attr = Function nat | Class | Value

type_synonym py_module = "(string \<times> attr) list"

text \<open>
  \<^verbatim>\<open>module.name(a1, ..., an)\<close>: the attribute lookup raises AttributeError when the module
  has no such name; the call raises TypeError when the number of arguments differs from
  the number of parameters, or when the attribute is not callable. \<open>None\<close> means that the
  call enters the function body.
\<close>

definition py_call :: "py_module \<Rightarrow> string \<Rightarrow> nat \<Rightarrow> exn option" where
  "py_call m name nargs =
     (case map_of m name of
        None \<Rightarrow> Some AttributeError
      | Some (Function n) \<Rightarrow> (if n = nargs then None else Some TypeError)
      | Some Class \<Rightarrow> None
      | Some Value \<Rightarrow> Some TypeError)"

text \<open>
  The top-level names of \<^verbatim>\<open>pass_service.py\<close>, in the order of the file: its imports, its
  three module variables and its eight functions.
\<close>

definition pass_service :: py_module where
  "pass_service =
     [(''ValidationError'', Class),
      (''config'', Value),
      (''logger'', Value),
      (''_call_async_webservice'', Function 1),
      (''PassCycle'', Class),
      (''PassProposal'', Class),
      (''PassProposalType'', Class),
      (''settings'', Value),
      (''api_key'', Value),
      (''base_url'', Value),
      (''get_proposal'', Function 1),
      (''get_proposal_types'', Function 0),
      (''get_saf_from_proposal'', Function 1),
      (''get_commissioning_proposals_by_year'', Function 1),
      (''get_pass_resources'', Function 0),
      (''get_cycles'', Function 0),
      (''get_proposals_allocated'', Function 0),
      (''get_proposals_by_person'', Function 1)]"

text \<open>
  \<^verbatim>\<open>str.casefold\<close> on ASCII text: the letters A to Z become a to z, every other character
  stays. (Identifiers of persons are ASCII; \<open>char\<close> is a byte.)
\<close>

definition casefold_char :: "char \<Rightarrow> char" where
  "casefold_char c =
     (let n = (of_char c :: nat) in if 65 \<le> n \<and> n \<le> 90 then char_of (n + 32) else c)"

definition casefold :: "string \<Rightarrow> string" where
  "casefold s = map casefold_char s"

text \<open>\<^verbatim>\<open>str(n)\<close> for an integer: its decimal digits, with a minus sign when negative.\<close>

fun str_nat :: "nat \<Rightarrow> string" where
  "str_nat n =
     (if n < 10 then [char_of (48 + n)] else str_nat (n div 10) @ [char_of (48 + n mod 10)])"

declare str_nat.simps [simp del]

definition str_int :: "int \<Rightarrow> string" where
  "str_int i = (if i < 0 then CHR ''-'' # str_nat (nat (- i)) else str_nat (nat i))"

section \<open>Records of the remote facility system (PASS)\<close>

text \<open>
  The fields that \<^verbatim>\<open>sync_service.py\<close> reads of the records declared in
  \<^verbatim>\<open>nsls2api.models.pass_models\<close>. A name shared by two records carries the record's
  prefix.
\<close>

record pass_resource =
  ID :: int

record pass_person =
  First_Name :: string
  Last_Name :: string
  Email :: string
  BNL_ID :: string

record pass_saf =
  SAF_ID :: int
  Status :: string
  saf_Resources :: "pass_resource list"

record pass_proposal =
  Proposal_ID :: int
  Title :: string
  Proposal_Type_ID :: int
  Proposal_Type_Description :: string
  Resources :: "pass_resource list"
  Experimenters :: "pass_person list"
  PI :: "pass_person option"

record pass_cycle =
  cycle_ID :: int
  Name :: string
  Active :: bool
  User_Facility_ID :: int
  Year :: int
  Start_Date :: string
  End_Date :: string
  Description :: string

record pass_proposal_type =
  type_ID :: int
  Code :: string
  type_User_Facility_ID :: int
  type_Description :: string

section \<open>Local documents\<close>

record beamline =
  beamline_name :: string

record facility =
  fac_name :: string
  fac_id :: string

record user =
  first_name :: string
  last_name :: string
  email :: string
  bnl_id :: string
  username :: "string option"
  is_pi :: bool

record safety_form =
  saf_id :: string
  status :: string
  saf_instruments :: "string list"

record proposal =
  proposal_id :: string
  title :: string
  data_session :: string
  pass_type_id :: string
  proposal_type :: string
  instruments :: "string list"
  safs :: "safety_form list"
  users :: "user list"
  cycles :: "string list"
  last_updated :: nat

record cycle =
  name :: string
  accepting_proposals :: bool
  cycle_facility :: string
  year :: string
  start_date :: string
  end_date :: string
  pass_description :: string
  pass_id :: string
  proposals :: "string list"
  cycle_last_updated :: "nat option"

record proposal_type_doc =
  code :: string
  facility_id :: string
  type_pass_id :: string
  description :: string
  type_pass_description :: string
  type_last_updated :: "nat option"

section \<open>The store and the log\<close>

datatype level = DEBUG | INFO | WARNING | ERROR

text \<open>
  A log entry: the level, the text of the message, and the exception object formatted into
  it or logged with it, if any. The \<^verbatim>\<open>logger.info\<close> and \<^verbatim>\<open>logger.debug\<close> lines, which
  report durations and responses of the database driver, are not recorded.
\<close>

type_synonym log_entry = "level \<times> string \<times> exn option"

text \<open>
  Each collection is the list of its documents in insertion order; the position of a
  document is its identity (the \<^verbatim>\<open>_id\<close> by which \<^verbatim>\<open>update\<close> and \<^verbatim>\<open>save\<close> address it).
  No document is ever deleted.
\<close>

record world =
  proposals_db :: "proposal list"
  cycles_db :: "cycle list"
  proposal_types_db :: "proposal_type_doc list"
  log :: "log_entry list"

definition logger :: "level \<Rightarrow> string \<Rightarrow> exn option \<Rightarrow> world \<Rightarrow> world" where
  "logger lv msg e w = w\<lparr>log := log w @ [(lv, msg, e)]\<rparr>"

text \<open>The position of the first document that satisfies a query.\<close>

fun find_idx :: "('a \<Rightarrow> bool) \<Rightarrow> 'a list \<Rightarrow> nat option" where
  "find_idx P [] = None"
| "find_idx P (x # xs) =
     (if P x then Some 0 else (case find_idx P xs of None \<Rightarrow> None | Some i \<Rightarrow> Some (Suc i)))"

text \<open>
  \<^verbatim>\<open>Doc.find_one(query).upsert(Set({...}), on_insert=doc)\<close>: when a document matches, the
  fields of the \<^verbatim>\<open>Set\<close> are written into the first match; when none does, \<open>doc\<close> is inserted.
  The result is the position of the document written and the new collection.
\<close>

definition upsert :: "('a \<Rightarrow> bool) \<Rightarrow> ('a \<Rightarrow> 'a) \<Rightarrow> 'a \<Rightarrow> 'a list \<Rightarrow> nat \<times> 'a list" where
  "upsert query set_fields on_insert docs =
     (case find_idx query docs of
        Some i \<Rightarrow> (i, docs[i := set_fields (docs ! i)])
      | None \<Rightarrow> (length docs, docs @ [on_insert]))"

text \<open>\<^verbatim>\<open>AddToSet\<close> on an array field: the value is appended unless it is already there.\<close>

definition AddToSet :: "'a \<Rightarrow> 'a list \<Rightarrow> 'a list" where
  "AddToSet x xs = (if x \<in> set xs then xs else xs @ [x])"

section \<open>Collaborators\<close>

text \<open>
  What the services receive from code outside \<^verbatim>\<open>sync_service.py\<close> and
  \<^verbatim>\<open>pass_service.py\<close>: the answers of the remote web service (already parsed into records,
  or the exception that the request or the parsing raised), the identity lookups, the
  derivation of the data-session label, the enumeration of a cycle's proposals, and the
  clock.
\<close>

record env =
  remote_proposal :: "int \<Rightarrow> exn + pass_proposal"
  remote_proposal_types :: "exn + pass_proposal_type list"
  remote_safs :: "int \<Rightarrow> exn + pass_saf list"
  remote_cycles :: "exn + pass_cycle list"
  remote_proposals_allocated_by_cycle :: "string \<Rightarrow> exn + int list"
  remote_commissioning_proposals :: "string \<Rightarrow> exn + int list"
  beamline_by_pass_id :: "int \<Rightarrow> beamline option"
  facility_by_pass_id :: "int \<Rightarrow> facility option"
  get_username_by_id :: "string \<Rightarrow> exn + string option"
  generate_data_session_for_proposal :: "int \<Rightarrow> string"
  fetch_proposals_for_cycle :: "world \<Rightarrow> string \<Rightarrow> exn + int list"
  cycle_year :: "world \<Rightarrow> string \<Rightarrow> exn + string"
  now :: nat

section \<open>\<^verbatim>\<open>pass_service.py\<close>\<close>

text \<open>
  \<^verbatim>\<open>get_proposal\<close> (lines 13 to 26): both handlers log and leave \<^verbatim>\<open>proposal = None\<close>, so the
  function returns \<open>None\<close> for a record that is absent or malformed and never raises.
\<close>

definition get_proposal :: "env \<Rightarrow> int \<Rightarrow> world \<Rightarrow> (exn + pass_proposal option) \<times> world" where
  "get_proposal env pid w =
     (case remote_proposal env pid of
        Inr p \<Rightarrow> (Inr (Some p), w)
      | Inl e \<Rightarrow>
          (case e of
             ValidationError s \<Rightarrow>
               (Inr None,
                logger ERROR ''Error validating data recevied from PASS for proposal: '' (Some e) w)
           | _ \<Rightarrow> (Inr None, logger ERROR ''Error retrieving proposal from PASS: '' (Some e) w)))"

text \<open>
  \<^verbatim>\<open>get_proposal_types\<close> (lines 29 to 47), with the same two handlers.
\<close>

definition get_proposal_types :: "env \<Rightarrow> world \<Rightarrow> (exn + pass_proposal_type list option) \<times> world" where
  "get_proposal_types env w =
     (case remote_proposal_types env of
        Inr ts \<Rightarrow> (Inr (Some ts), w)
      | Inl e \<Rightarrow>
          (case e of
             ValidationError s \<Rightarrow>
               (Inr None,
                logger ERROR ''Error validating data recevied from PASS for proposal types: ''
                  (Some e) w)
           | _ \<Rightarrow>
               (Inr None, logger ERROR ''Error retrieving proposal types from PASS: '' (Some e) w)))"

text \<open>
  \<^verbatim>\<open>get_saf_from_proposal\<close> (lines 50 to 54) and \<^verbatim>\<open>get_cycles\<close> (lines 70 to 74) have no
  handler: what the request raises, they raise.
\<close>

definition get_saf_from_proposal :: "env \<Rightarrow> int \<Rightarrow> exn + pass_saf list" where
  "get_saf_from_proposal env pid = remote_safs env pid"

definition get_cycles :: "env \<Rightarrow> exn + pass_cycle list" where
  "get_cycles env = remote_cycles env"

section \<open>\<^verbatim>\<open>sync_service.py\<close>: the proposal reconciler\<close>

text \<open>
  The handler \<^verbatim>\<open>except pass_service.PassException as error\<close> that follows each fetch of
  \<^verbatim>\<open>sync_service.py\<close>. Python evaluates the expression after \<^verbatim>\<open>except\<close> when an exception
  reaches the clause: the attribute lookup itself raises AttributeError when the module has
  no such name. Otherwise a \<open>PassException\<close> is logged and replaced by
  \<^verbatim>\<open>Exception(error_message)\<close>, and any other exception goes on.
\<close>

definition except_PassException :: "py_module \<Rightarrow> string \<Rightarrow> exn \<Rightarrow> world \<Rightarrow> exn \<times> world" where
  "except_PassException m error_message e w =
     (case map_of m ''PassException'' of
        None \<Rightarrow> (AttributeError, w)
      | Some a \<Rightarrow>
          (case e of
             PassException s \<Rightarrow> (Exception error_message, logger ERROR error_message (Some e) w)
           | _ \<Rightarrow> (e, w)))"

text \<open>Lines 144 to 149: the guarded call of \<^verbatim>\<open>pass_service.get_proposal(proposal_id)\<close>.\<close>

definition try_get_proposal ::
  "py_module \<Rightarrow> env \<Rightarrow> int \<Rightarrow> world \<Rightarrow> (exn + pass_proposal option) \<times> world" where
  "try_get_proposal m env pid w =
     (case (case py_call m ''get_proposal'' 1 of
              Some e \<Rightarrow> (Inl e, w)
            | None \<Rightarrow> get_proposal env pid w) of
        (Inr r, w1) \<Rightarrow> (Inr r, w1)
      | (Inl e, w1) \<Rightarrow>
          (case except_PassException m
                  (''Error retrieving proposal '' @ str_int pid @ '' from PASS'') e w1 of
             (e', w2) \<Rightarrow> (Inl e', w2)))"

text \<open>
  Lines 155 to 158 and 167 to 170: the names of the beamlines that the resources resolve
  to; a resource that resolves to nothing is passed over.
\<close>

fun beamline_names_loop :: "env \<Rightarrow> pass_resource list \<Rightarrow> string list \<Rightarrow> string list" where
  "beamline_names_loop env [] acc = acc"
| "beamline_names_loop env (resource # rest) acc =
     (case beamline_by_pass_id env (ID resource) of
        Some b \<Rightarrow> beamline_names_loop env rest (acc @ [beamline_name b])
      | None \<Rightarrow> beamline_names_loop env rest acc)"

text \<open>Lines 153 to 164: one safety form for each remote one.\<close>

fun saf_loop :: "env \<Rightarrow> pass_saf list \<Rightarrow> safety_form list \<Rightarrow> safety_form list" where
  "saf_loop env [] saf_list = saf_list"
| "saf_loop env (saf # rest) saf_list =
     saf_loop env rest
       (saf_list @
        [\<lparr>saf_id = str_int (SAF_ID saf), status = Status saf,
          saf_instruments = beamline_names_loop env (saf_Resources saf) []\<rparr>])"

text \<open>
  Line 183: an experimenter is the PI when the two identifiers agree up to case.
\<close>

definition is_the_pi :: "pass_person \<Rightarrow> pass_person \<Rightarrow> bool" where
  "is_the_pi p u = (casefold (BNL_ID p) = casefold (BNL_ID u))"

definition User :: "pass_person \<Rightarrow> string option \<Rightarrow> bool \<Rightarrow> user" where
  "User person bnl_username user_is_pi =
     \<lparr>first_name = First_Name person, last_name = Last_Name person, email = Email person,
      bnl_id = BNL_ID person, username = bnl_username, is_pi = user_is_pi\<rparr>"

text \<open>
  Lines 175 to 201: the loop over the experimenters, with the list built so far and the flag
  \<^verbatim>\<open>pi_found_in_experimenters\<close>. Without a PI every experimenter is passed over with a
  warning. Only an HTTPStatusError of the username lookup is caught.
\<close>

fun experimenters_loop ::
  "env \<Rightarrow> int \<Rightarrow> pass_person option \<Rightarrow> pass_person list \<Rightarrow> user list \<Rightarrow> bool \<Rightarrow> world
    \<Rightarrow> (exn + user list \<times> bool) \<times> world" where
  "experimenters_loop env pid pi [] user_list pi_found w = (Inr (user_list, pi_found), w)"
| "experimenters_loop env pid pi (u # rest) user_list pi_found w =
     (case pi of
        None \<Rightarrow>
          experimenters_loop env pid pi rest user_list pi_found
            (logger WARNING (''Proposal '' @ str_int pid @ '' does not have a PI.'') None w)
      | Some p \<Rightarrow>
          (let user_is_pi = is_the_pi p u;
               pi_found' = (pi_found \<or> user_is_pi)
           in case get_username_by_id env (BNL_ID u) of
                Inr bnl_username \<Rightarrow>
                  experimenters_loop env pid pi rest
                    (user_list @ [User u bnl_username user_is_pi]) pi_found' w
              | Inl e \<Rightarrow>
                  (case e of
                     HTTPStatusError s \<Rightarrow>
                       experimenters_loop env pid pi rest
                         (user_list @ [User u None user_is_pi]) pi_found'
                         (logger ERROR ''BNL People API returned: '' (Some e)
                           (logger ERROR
                             (''Could not find BNL username for BNL ID '' @ [CHR 0x27] @ BNL_ID u
                                @ [CHR 0x27] @ ''.'') None w))
                   | _ \<Rightarrow> (Inl e, w))))"

text \<open>
  Lines 205 to 217: the PI is added when no experimenter was the PI. The username lookup
  stands outside any \<^verbatim>\<open>try\<close>.
\<close>

definition add_pi :: "env \<Rightarrow> pass_person option \<Rightarrow> bool \<Rightarrow> user list \<Rightarrow> exn + user list" where
  "add_pi env pi pi_found user_list =
     (case pi of
        None \<Rightarrow> Inr user_list
      | Some p \<Rightarrow>
          (if pi_found then Inr user_list
           else (case get_username_by_id env (BNL_ID p) of
                   Inl e \<Rightarrow> Inl e
                 | Inr bnl_username \<Rightarrow> Inr (user_list @ [User p bnl_username True]))))"

text \<open>
  Lines 219 to 248: the document for insertion, and the upsert keyed by
  \<^verbatim>\<open>str(proposal_id)\<close>. A new \<^verbatim>\<open>Proposal\<close> starts with no cycles.
\<close>

definition upsert_proposal ::
  "env \<Rightarrow> int \<Rightarrow> pass_proposal \<Rightarrow> string list \<Rightarrow> safety_form list \<Rightarrow> user list
    \<Rightarrow> proposal list \<Rightarrow> nat \<times> proposal list" where
  "upsert_proposal env pid p beamline_list saf_list user_list docs =
     (let data_session' = generate_data_session_for_proposal env pid;
          new_doc =
            \<lparr>proposal_id = str_int (Proposal_ID p), title = Title p,
             data_session = data_session', pass_type_id = str_int (Proposal_Type_ID p),
             proposal_type = Proposal_Type_Description p, instruments = beamline_list,
             safs = saf_list, users = user_list, cycles = [], last_updated = now env\<rparr>
      in upsert (\<lambda>d. proposal_id d = str_int pid)
           (\<lambda>d. d\<lparr>title := Title p, data_session := data_session',
                   pass_type_id := str_int (Proposal_Type_ID p),
                   proposal_type := Proposal_Type_Description p, instruments := beamline_list,
                   safs := saf_list, users := user_list, last_updated := now env\<rparr>)
           new_doc docs)"

text \<open>
  \<^verbatim>\<open>synchronize_proposal_from_pass\<close> (lines 139 to 249). The safety forms are fetched and
  built before the first use of \<^verbatim>\<open>pass_proposal\<close>, whose attribute access raises
  AttributeError when \<^verbatim>\<open>get_proposal\<close> returned \<open>None\<close>.
\<close>

definition synchronize_proposal_from_pass ::
  "py_module \<Rightarrow> env \<Rightarrow> int \<Rightarrow> world \<Rightarrow> (exn + unit) \<times> world" where
  "synchronize_proposal_from_pass m env pid w =
     (case try_get_proposal m env pid w of
        (Inl e, w1) \<Rightarrow> (Inl e, w1)
      | (Inr pass_proposal, w1) \<Rightarrow>
          (case (case py_call m ''get_saf_from_proposal'' 1 of
                   Some e \<Rightarrow> Inl e
                 | None \<Rightarrow> get_saf_from_proposal env pid) of
             Inl e \<Rightarrow> (Inl e, w1)
           | Inr pass_saf_list \<Rightarrow>
               (let saf_list = saf_loop env pass_saf_list []
                in case pass_proposal of
                     None \<Rightarrow> (Inl AttributeError, w1)
                   | Some p \<Rightarrow>
                       (let beamline_list = beamline_names_loop env (Resources p) []
                        in case experimenters_loop env pid (PI p) (Experimenters p)
                                  [] False w1 of
                             (Inl e, w2) \<Rightarrow> (Inl e, w2)
                           | (Inr (user_list, pi_found), w2) \<Rightarrow>
                               (case add_pi env (PI p) pi_found user_list of
                                  Inl e \<Rightarrow> (Inl e, w2)
                                | Inr user_list' \<Rightarrow>
                                    (Inr (),
                                     w2\<lparr>proposals_db :=
                                          snd (upsert_proposal env pid p beamline_list
                                                 saf_list user_list' (proposals_db w2))\<rparr>))))))"

section \<open>\<^verbatim>\<open>sync_service.py\<close>: the cycle-proposal linker\<close>

text \<open>
  Modelled from the spec: \<^verbatim>\<open>proposal_service.proposal_by_id\<close> is not among the sources. The
  spec has the linker look up the local Proposal and count a proposal that is not found as
  a LookupError ("a referenced local entity cannot be resolved"), which is the exception
  that \<^verbatim>\<open>update_proposals_with_cycle\<close> catches. The lookup is by \<^verbatim>\<open>str(proposal_id)\<close>, the
  key of the proposal upsert; the result is the position of the document.
\<close>

definition proposal_by_id :: "int \<Rightarrow> world \<Rightarrow> exn + nat" where
  "proposal_by_id pid w =
     (case find_idx (\<lambda>d. proposal_id d = str_int pid) (proposals_db w) of
        None \<Rightarrow> Inl (LookupError (''Could not find a proposal with an ID of '' @ str_int pid))
      | Some i \<Rightarrow> Inr i)"

text \<open>
  Lines 264 to 273. The elements of the list are the integers that
  \<^verbatim>\<open>worker_synchronize_proposals_for_cycle_from_pass\<close> hands to
  \<^verbatim>\<open>synchronize_proposal_from_pass(proposal_id: int)\<close>, so \<^verbatim>\<open>int(proposal_id)\<close> is the
  identity. Only a LookupError is caught.
\<close>

fun link_loop :: "env \<Rightarrow> string \<Rightarrow> int list \<Rightarrow> world \<Rightarrow> (exn + unit) \<times> world" where
  "link_loop env cycle_name [] w = (Inr (), w)"
| "link_loop env cycle_name (pid # rest) w =
     (case proposal_by_id pid w of
        Inr i \<Rightarrow>
          link_loop env cycle_name rest
            (w\<lparr>proposals_db :=
                 (proposals_db w)
                   [i := (proposals_db w ! i)
                      \<lparr>cycles := AddToSet cycle_name (cycles (proposals_db w ! i)),
                       last_updated := now env\<rparr>]\<rparr>)
      | Inl e \<Rightarrow>
          (case e of
             LookupError s \<Rightarrow> link_loop env cycle_name rest (logger WARNING [] (Some e) w)
           | _ \<Rightarrow> (Inl e, w)))"

text \<open>\<^verbatim>\<open>update_proposals_with_cycle\<close> (lines 252 to 273).\<close>

definition update_proposals_with_cycle :: "env \<Rightarrow> string \<Rightarrow> world \<Rightarrow> (exn + unit) \<times> world" where
  "update_proposals_with_cycle env cycle_name w =
     (case fetch_proposals_for_cycle env w cycle_name of
        Inl e \<Rightarrow> (Inl e, w)
      | Inr proposal_list \<Rightarrow> link_loop env cycle_name proposal_list w)"

section \<open>\<^verbatim>\<open>sync_service.py\<close>: the cycle reconciler\<close>

text \<open>
  Lines 74 to 79: each allocated proposal is added to the cycle document at position \<open>i\<close>
  and the document is saved with a new timestamp.
\<close>

fun add_proposals_loop :: "env \<Rightarrow> nat \<Rightarrow> int list \<Rightarrow> cycle list \<Rightarrow> cycle list" where
  "add_proposals_loop env i [] docs = docs"
| "add_proposals_loop env i (p # rest) docs =
     add_proposals_loop env i rest
       (docs[i := (docs ! i)
          \<lparr>proposals := AddToSet (str_int p) (proposals (docs ! i)),
           cycle_last_updated := Some (now env)\<rparr>])"

text \<open>
  Lines 37 to 79. \<^verbatim>\<open>facility.name\<close> raises AttributeError when the facility is not
  resolved. The list of allocated proposals is asked of
  \<^verbatim>\<open>pass_service.get_proposals_allocated_by_cycle\<close>.
\<close>

fun cycles_loop :: "py_module \<Rightarrow> env \<Rightarrow> pass_cycle list \<Rightarrow> world \<Rightarrow> (exn + unit) \<times> world" where
  "cycles_loop m env [] w = (Inr (), w)"
| "cycles_loop m env (pass_cycle # rest) w =
     (case facility_by_pass_id env (User_Facility_ID pass_cycle) of
        None \<Rightarrow> (Inl AttributeError, w)
      | Some fac \<Rightarrow>
          (let new_doc =
                 \<lparr>name = Name pass_cycle, accepting_proposals = Active pass_cycle,
                  cycle_facility = fac_id fac, year = str_int (Year pass_cycle),
                  start_date = Start_Date pass_cycle, end_date = End_Date pass_cycle,
                  pass_description = Description pass_cycle,
                  pass_id = str_int (cycle_ID pass_cycle), proposals = [],
                  cycle_last_updated = None\<rparr>;
               (i, docs) =
                 upsert (\<lambda>d. name d = Name pass_cycle)
                   (\<lambda>d. d\<lparr>accepting_proposals := accepting_proposals new_doc,
                           cycle_facility := cycle_facility new_doc,
                           pass_description := pass_description new_doc,
                           pass_id := pass_id new_doc, year := year new_doc,
                           start_date := start_date new_doc, end_date := end_date new_doc,
                           cycle_last_updated := Some (now env)\<rparr>)
                   new_doc (cycles_db w);
               w1 = w\<lparr>cycles_db := docs\<rparr>
           in case (case py_call m ''get_proposals_allocated_by_cycle'' 1 of
                      Some e \<Rightarrow> Inl e
                    | None \<Rightarrow> remote_proposals_allocated_by_cycle env (name new_doc)) of
                Inl e \<Rightarrow> (Inl e, w1)
              | Inr proposals_list \<Rightarrow>
                  cycles_loop m env rest
                    (w1\<lparr>cycles_db := add_proposals_loop env i proposals_list docs\<rparr>)))"

text \<open>
  \<^verbatim>\<open>worker_synchronize_cycles_from_pass\<close> (lines 20 to 84). The facility name is passed to
  \<^verbatim>\<open>pass_service.get_cycles\<close> as one argument. The last log line reads the loop variable
  \<^verbatim>\<open>facility\<close>, which is unbound when the loop body never ran.
\<close>

definition worker_synchronize_cycles_from_pass ::
  "py_module \<Rightarrow> env \<Rightarrow> string \<Rightarrow> world \<Rightarrow> (exn + unit) \<times> world" where
  "worker_synchronize_cycles_from_pass m env facility_name w =
     (case (case py_call m ''get_cycles'' 1 of
              Some e \<Rightarrow> Inl e
            | None \<Rightarrow> get_cycles env) of
        Inl e \<Rightarrow>
          (case except_PassException m
                  (''Error retrieving cycle information from PASS for '' @ facility_name
                     @ '' facility.'') e w of
             (e', w1) \<Rightarrow> (Inl e', w1))
      | Inr pass_cycles \<Rightarrow>
          (case cycles_loop m env pass_cycles w of
             (Inl e, w1) \<Rightarrow> (Inl e, w1)
           | (Inr u, w1) \<Rightarrow>
               (if pass_cycles = [] then (Inl UnboundLocalError, w1) else (Inr (), w1))))"

section \<open>\<^verbatim>\<open>sync_service.py\<close>: the proposal type reconciler\<close>

text \<open>
  Lines 103 to 130. \<^verbatim>\<open>facility.facility_id\<close> raises AttributeError when the facility is not
  resolved; nothing in the loop catches it.
\<close>

fun proposal_types_loop ::
  "env \<Rightarrow> pass_proposal_type list \<Rightarrow> world \<Rightarrow> (exn + unit) \<times> world" where
  "proposal_types_loop env [] w = (Inr (), w)"
| "proposal_types_loop env (t # rest) w =
     (case facility_by_pass_id env (type_User_Facility_ID t) of
        None \<Rightarrow> (Inl AttributeError, w)
      | Some fac \<Rightarrow>
          (let new_doc =
                 \<lparr>code = Code t, facility_id = fac_id fac, type_pass_id = str_int (type_ID t),
                  description = type_Description t, type_pass_description = type_Description t,
                  type_last_updated = None\<rparr>
           in proposal_types_loop env rest
                (w\<lparr>proposal_types_db :=
                     snd (upsert (\<lambda>d. type_pass_id d = str_int (type_ID t))
                            (\<lambda>d. d\<lparr>code := Code t, type_pass_description := type_Description t,
                                    description := type_Description t,
                                    facility_id := fac_id fac,
                                    type_last_updated := Some (now env)\<rparr>)
                            new_doc (proposal_types_db w))\<rparr>)))"

text \<open>
  \<^verbatim>\<open>worker_synchronize_proposal_types_from_pass\<close> (lines 87 to 136). The facility name is
  passed to \<^verbatim>\<open>pass_service.get_proposal_types\<close> as one argument; iterating over the \<open>None\<close>
  that the fetch returns on failure raises TypeError; the last log lines read \<^verbatim>\<open>response\<close>
  and \<^verbatim>\<open>facility\<close>, unbound when the loop body never ran.
\<close>

definition worker_synchronize_proposal_types_from_pass ::
  "py_module \<Rightarrow> env \<Rightarrow> string \<Rightarrow> world \<Rightarrow> (exn + unit) \<times> world" where
  "worker_synchronize_proposal_types_from_pass m env facility_name w =
     (case (case py_call m ''get_proposal_types'' 1 of
              Some e \<Rightarrow> (Inl e, w)
            | None \<Rightarrow> get_proposal_types env w) of
        (Inl e, w1) \<Rightarrow>
          (case except_PassException m
                  (''Error retrieving proposal types from PASS for '' @ facility_name
                     @ '' facility.'') e w1 of
             (e', w2) \<Rightarrow> (Inl e', w2))
      | (Inr None, w1) \<Rightarrow> (Inl TypeError, w1)
      | (Inr (Some pass_proposal_types), w1) \<Rightarrow>
          (case proposal_types_loop env pass_proposal_types w1 of
             (Inl e, w2) \<Rightarrow> (Inl e, w2)
           | (Inr u, w2) \<Rightarrow>
               (if pass_proposal_types = [] then (Inl UnboundLocalError, w2) else (Inr (), w2))))"

section \<open>\<^verbatim>\<open>sync_service.py\<close>: the workers over a cycle\<close>

text \<open>Lines 295 to 297 and 305 to 307: the first proposal that fails ends the loop.\<close>

fun sync_proposals_loop ::
  "py_module \<Rightarrow> env \<Rightarrow> int list \<Rightarrow> world \<Rightarrow> (exn + unit) \<times> world" where
  "sync_proposals_loop m env [] w = (Inr (), w)"
| "sync_proposals_loop m env (pid # rest) w =
     (case synchronize_proposal_from_pass m env pid w of
        (Inl e, w1) \<Rightarrow> (Inl e, w1)
      | (Inr u, w1) \<Rightarrow> sync_proposals_loop m env rest w1)"

text \<open>\<^verbatim>\<open>worker_synchronize_proposals_for_cycle_from_pass\<close> (lines 287 to 315).\<close>

definition worker_synchronize_proposals_for_cycle_from_pass ::
  "py_module \<Rightarrow> env \<Rightarrow> string \<Rightarrow> world \<Rightarrow> (exn + unit) \<times> world" where
  "worker_synchronize_proposals_for_cycle_from_pass m env cycle_name w =
     (case cycle_year env w cycle_name of
        Inl e \<Rightarrow> (Inl e, w)
      | Inr cy \<Rightarrow>
          (case fetch_proposals_for_cycle env w cycle_name of
             Inl e \<Rightarrow> (Inl e, w)
           | Inr proposal_list \<Rightarrow>
               (case sync_proposals_loop m env proposal_list w of
                  (Inl e, w1) \<Rightarrow> (Inl e, w1)
                | (Inr u, w1) \<Rightarrow>
                    (case (case py_call m ''get_commissioning_proposals_by_year'' 1 of
                             Some e \<Rightarrow> Inl e
                           | None \<Rightarrow> remote_commissioning_proposals env cy) of
                       Inl e \<Rightarrow> (Inl e, w1)
                     | Inr commissioning_proposals \<Rightarrow>
                         (case sync_proposals_loop m env commissioning_proposals w1 of
                            (Inl e, w2) \<Rightarrow> (Inl e, w2)
                          | (Inr u, w2) \<Rightarrow> update_proposals_with_cycle env cycle_name w2)))))"

text \<open>
  The operations of the engine, and a sequence of passes, each against the remote system and
  the collaborators as they are at that time. A pass that fails keeps what it wrote before
  the failure.
\<close>

datatype job =
    Synchronize_cycles string
  | Synchronize_proposal_types string
  | Synchronize_proposal int
  | Synchronize_proposals_for_cycle string
  | Update_proposals_with_cycle string

fun run_job :: "py_module \<Rightarrow> env \<Rightarrow> job \<Rightarrow> world \<Rightarrow> (exn + unit) \<times> world" where
  "run_job m env (Synchronize_cycles f) w = worker_synchronize_cycles_from_pass m env f w"
| "run_job m env (Synchronize_proposal_types f) w =
     worker_synchronize_proposal_types_from_pass m env f w"
| "run_job m env (Synchronize_proposal pid) w = synchronize_proposal_from_pass m env pid w"
| "run_job m env (Synchronize_proposals_for_cycle c) w =
     worker_synchronize_proposals_for_cycle_from_pass m env c w"
| "run_job m env (Update_proposals_with_cycle c) w = update_proposals_with_cycle env c w"

fun run_passes :: "py_module \<Rightarrow> (env \<times> job) list \<Rightarrow> world \<Rightarrow> world" where
  "run_passes m [] w = w"
| "run_passes m ((env, j) # rest) w = run_passes m rest (snd (run_job m env j w))"

section \<open>Observations on the store\<close>

text \<open>
  The proposal document that the upsert keyed by \<^verbatim>\<open>str(proposal_id)\<close> wrote, read in the
  world after the run: the first match of the world before, or else the document inserted
  behind the last one.
\<close>

definition written_doc :: "int \<Rightarrow> world \<Rightarrow> world \<Rightarrow> proposal" where
  "written_doc pid w w' =
     (case find_idx (\<lambda>d. proposal_id d = str_int pid) (proposals_db w) of
        Some i \<Rightarrow> proposals_db w' ! i
      | None \<Rightarrow> proposals_db w' ! length (proposals_db w))"

text \<open>The three collections are the same in both worlds (the log may differ).\<close>

definition same_store :: "world \<Rightarrow> world \<Rightarrow> bool" where
  "same_store w w' =
     (proposals_db w' = proposals_db w \<and> cycles_db w' = cycles_db w \<and>
      proposal_types_db w' = proposal_types_db w)"



text \<open>
  One turn of the loop of \<^verbatim>\<open>update_proposals_with_cycle\<close> (lines 267 to 273): the cycle is
  added to the proposal found, or the exception of the lookup is logged as a warning.
\<close>

definition link_one :: "env \<Rightarrow> string \<Rightarrow> int \<Rightarrow> world \<Rightarrow> world" where
  "link_one env cycle_name pid w =
     (case proposal_by_id pid w of
        Inr i \<Rightarrow>
          w\<lparr>proposals_db :=
               (proposals_db w)
                 [i := (proposals_db w ! i)
                    \<lparr>cycles := AddToSet cycle_name (cycles (proposals_db w ! i)),
                     last_updated := now env\<rparr>]\<rparr>
      | Inl e \<Rightarrow> logger WARNING [] (Some e) w)"

text \<open>
  The warning that linking logs for a proposal id with no document in the store, and
  nothing for one that has a document.
\<close>

definition link_warning :: "world \<Rightarrow> int \<Rightarrow> log_entry option" where
  "link_warning w pid =
     (case proposal_by_id pid w of Inl e \<Rightarrow> Some (WARNING, [], Some e) | Inr i \<Rightarrow> None)"

text \<open>
  Growth of a collection: every document of \<open>xs\<close> is still there in \<open>ys\<close>, at its position,
  and the set \<open>f\<close> reads of it has lost no element. Growth of the store: the proposals of
  every cycle and the cycles of every proposal.
\<close>

definition docs_grow :: "('a \<Rightarrow> 'b set) \<Rightarrow> 'a list \<Rightarrow> 'a list \<Rightarrow> bool" where
  "docs_grow f xs ys =
     (length xs \<le> length ys \<and> list_all2 (\<lambda>x y. f x \<subseteq> f y) xs (take (length xs) ys))"

definition only_grows :: "world \<Rightarrow> world \<Rightarrow> bool" where
  "only_grows w w' =
     (docs_grow (\<lambda>c. set (proposals c)) (cycles_db w) (cycles_db w') \<and>
      docs_grow (\<lambda>p. set (cycles p)) (proposals_db w) (proposals_db w'))"

section \<open>Example inputs\<close>

definition ada :: pass_person where
  "ada = \<lparr>First_Name = ''Ada'', Last_Name = ''Lovelace'', Email = ''ada@example.org'',
          BNL_ID = ''123''\<rparr>"

definition bob :: pass_person where
  "bob = \<lparr>First_Name = ''Bob'', Last_Name = ''Kahn'', Email = ''bob@example.org'',
          BNL_ID = ''456''\<rparr>"

definition example_saf :: pass_saf where
  "example_saf = \<lparr>SAF_ID = 11, Status = ''APPROVED'', saf_Resources = [\<lparr>ID = 1\<rparr>, \<lparr>ID = 2\<rparr>]\<rparr>"

definition example_proposal :: pass_proposal where
  "example_proposal =
     \<lparr>Proposal_ID = 7, Title = ''Coherent scattering'', Proposal_Type_ID = 3,
      Proposal_Type_Description = ''General User'', Resources = [\<lparr>ID = 1\<rparr>, \<lparr>ID = 2\<rparr>],
      Experimenters = [bob], PI = Some ada\<rparr>"

definition gu_type :: pass_proposal_type where
  "gu_type = \<lparr>type_ID = 31, Code = ''GU'', type_User_Facility_ID = 2,
               type_Description = ''General User''\<rparr>"

definition ra_type :: pass_proposal_type where
  "ra_type = \<lparr>type_ID = 32, Code = ''RA'', type_User_Facility_ID = 1,
               type_Description = ''Rapid Access''\<rparr>"

text \<open>
  The remote system knows proposal 7 only; of its two proposal types the first belongs to
  a facility that is not known locally; resource 1 is the beamline CHX and resource 2
  resolves to nothing; facility 1 is known and facility 2 is not; the username of person
  123 is found and any other lookup fails with an HTTPStatusError.
\<close>

definition example_env :: env where
  "example_env =
     \<lparr>remote_proposal =
        (\<lambda>pid. if pid = 7 then Inr example_proposal else Inl (RemoteError ''404'')),
      remote_proposal_types = Inr [gu_type, ra_type],
      remote_safs = (\<lambda>pid. Inr [example_saf]),
      remote_cycles = Inr [],
      remote_proposals_allocated_by_cycle = (\<lambda>c. Inr []),
      remote_commissioning_proposals = (\<lambda>y. Inr []),
      beamline_by_pass_id = (\<lambda>i. if i = 1 then Some \<lparr>beamline_name = ''CHX''\<rparr> else None),
      facility_by_pass_id =
        (\<lambda>i. if i = 1 then Some \<lparr>fac_name = ''NSLS-II'', fac_id = ''nsls2''\<rparr> else None),
      get_username_by_id =
        (\<lambda>b. if b = ''123'' then Inr (Some ''ada'') else Inl (HTTPStatusError ''404'')),
      generate_data_session_for_proposal = (\<lambda>pid. ''pass-'' @ str_int pid),
      fetch_proposals_for_cycle = (\<lambda>w c. Inr [8, 7]),
      cycle_year = (\<lambda>w c. Inr ''2024''),
      now = 100\<rparr>"

definition empty_world :: world where
  "empty_world = \<lparr>proposals_db = [], cycles_db = [], proposal_types_db = [], log = []\<rparr>"

text \<open>
  A store after earlier passes: proposal 7 is linked to the cycle 2024-1, and the cycle
  lists the proposals 7 and 9.
\<close>

definition stored_world :: world where
  "stored_world =
     \<lparr>proposals_db =
        [\<lparr>proposal_id = ''7'', title = ''Old title'', data_session = ''pass-7'',
          pass_type_id = ''3'', proposal_type = ''General User'', instruments = [],
          safs = [], users = [], cycles = [''2024-1''], last_updated = 1\<rparr>],
      cycles_db =
        [\<lparr>name = ''2024-1'', accepting_proposals = False, cycle_facility = ''nsls2'',
          year = ''2024'', start_date = ''2024-01-01'', end_date = ''2024-04-30'',
          pass_description = ''Spring'', pass_id = ''5'', proposals = [''7'', ''9''],
          cycle_last_updated = Some 1\<rparr>],
      proposal_types_db = [],
      log = []\<rparr>"

section \<open>Calls into \<^verbatim>\<open>pass_service\<close> as the file has it\<close>

lemma py_call_get_cycles: "py_call pass_service ''get_cycles'' (Suc n) = Some TypeError"
  by (simp add: py_call_def pass_service_def)

lemma py_call_get_proposal_types:
  "py_call pass_service ''get_proposal_types'' (Suc n) = Some TypeError"
  by (simp add: py_call_def pass_service_def)

lemma no_PassException: "map_of pass_service ''PassException'' = None"
  by (simp add: pass_service_def)

lemma except_PassException_pass_service:
  "except_PassException pass_service msg e w = (AttributeError, w)"
  by (simp add: except_PassException_def no_PassException)

text \<open>
  Claim C2. For every facility name, whatever the remote system would answer and whatever
  the store holds, \<^verbatim>\<open>worker_synchronize_cycles_from_pass\<close> and
  \<^verbatim>\<open>worker_synchronize_proposal_types_from_pass\<close> fail: the fetch is called with one
  argument where \<^verbatim>\<open>get_cycles\<close> and \<^verbatim>\<open>get_proposal_types\<close> take none, and the handler's
  \<^verbatim>\<open>pass_service.PassException\<close> is not a name of the module, so the invocation ends in an
  AttributeError. The store and the log are left as they were: no record is written.
\<close>

theorem workers_from_pass_always_fail:
  "worker_synchronize_cycles_from_pass pass_service env facility_name w
     = (Inl AttributeError, w)
   \<and> worker_synchronize_proposal_types_from_pass pass_service env facility_name w
     = (Inl AttributeError, w)"
  by (simp add: worker_synchronize_cycles_from_pass_def
      worker_synchronize_proposal_types_from_pass_def
      py_call_get_cycles py_call_get_proposal_types except_PassException_pass_service)

section \<open>Collections\<close>

lemma find_idx_Some: "find_idx P xs = Some i \<Longrightarrow> i < length xs \<and> P (xs ! i)"
  by (induction xs arbitrary: i) (auto split: if_splits option.splits)

lemma find_idx_None: "find_idx P xs = None \<longleftrightarrow> (\<forall>x\<in>set xs. \<not> P x)"
  by (induction xs) (auto split: option.splits)

lemma upsert_length: "length docs \<le> length (snd (upsert q f n docs))"
  by (simp add: upsert_def split: option.splits)

lemma upsert_nth:
  "i < length docs \<Longrightarrow>
   snd (upsert q f n docs) ! i = (if find_idx q docs = Some i then f (docs ! i) else docs ! i)"
  by (auto simp: upsert_def nth_append dest: find_idx_Some split: option.splits)


section \<open>What the reconciler leaves alone\<close>

lemma same_store_refl [simp]: "same_store w w"
  by (simp add: same_store_def)

lemma same_store_logger [simp]: "same_store w (logger lv msg e w)"
  by (simp add: same_store_def logger_def)

lemma same_store_trans: "same_store w w1 \<Longrightarrow> same_store w1 w2 \<Longrightarrow> same_store w w2"
  by (simp add: same_store_def)

lemma get_proposal_Inr:
  "remote_proposal env pid = Inr p \<Longrightarrow> get_proposal env pid w = (Inr (Some p), w)"
  by (simp add: get_proposal_def)

lemma get_proposal_Inl:
  "remote_proposal env pid = Inl e \<Longrightarrow>
   fst (get_proposal env pid w) = Inr None \<and> same_store w (snd (get_proposal env pid w))"
  by (cases e) (simp_all add: get_proposal_def)

lemma get_proposal_same_store: "get_proposal env pid w = (r, w') \<Longrightarrow> same_store w w'"
  using get_proposal_Inl [of env pid _ w] get_proposal_Inr [of env pid _ w]
  by (cases "remote_proposal env pid") auto


lemma except_PassException_same_store:
  "except_PassException m msg e w = (e', w') \<Longrightarrow> same_store w w'"
  by (cases e) (auto simp: except_PassException_def split: option.splits)

lemma try_get_proposal_same_store:
  "try_get_proposal m env pid w = (r, w') \<Longrightarrow> same_store w w'"
  by (auto simp: try_get_proposal_def split: option.splits sum.splits prod.splits
      dest: get_proposal_same_store except_PassException_same_store same_store_trans)




lemma experimenters_loop_same_store:
  "experimenters_loop env pid pi us ul f w = (r, w') \<Longrightarrow> same_store w w'"
proof (induction us arbitrary: ul f w)
  case Nil
  then show ?case by auto
next
  case (Cons u us)
  show ?case
  proof (cases pi)
    case None
    with Cons.prems Cons.IH show ?thesis
      by (auto dest!: same_store_trans [OF same_store_logger])
  next
    case (Some p)
    show ?thesis
    proof (cases "get_username_by_id env (BNL_ID u)")
      case (Inr a)
      with Some Cons.prems Cons.IH show ?thesis by (auto simp: Let_def)
    next
      case (Inl e)
      with Some Cons.prems Cons.IH show ?thesis
        by (cases e)
           (auto simp: Let_def
             dest!: same_store_trans [OF same_store_trans [OF same_store_logger same_store_logger]])
    qed
  qed
qed



text \<open>
  A run of the reconciler leaves the cycles and the proposal types alone, and either leaves
  the proposals alone or is one upsert of the proposal.
\<close>

lemma synchronize_proposal_effect:
  "cycles_db (snd (synchronize_proposal_from_pass m env pid w)) = cycles_db w \<and>
   proposal_types_db (snd (synchronize_proposal_from_pass m env pid w)) = proposal_types_db w \<and>
   (proposals_db (snd (synchronize_proposal_from_pass m env pid w)) = proposals_db w \<or>
    (\<exists>p bl sl ul. proposals_db (snd (synchronize_proposal_from_pass m env pid w)) =
        snd (upsert_proposal env pid p bl sl ul (proposals_db w))))"
proof -
  obtain r w1 where t: "try_get_proposal m env pid w = (r, w1)"
    by (cases "try_get_proposal m env pid w")
  from try_get_proposal_same_store [OF t] have w1: "proposals_db w1 = proposals_db w"
    "cycles_db w1 = cycles_db w" "proposal_types_db w1 = proposal_types_db w"
    by (simp_all add: same_store_def)
  show ?thesis
  proof (cases r)
    case (Inl e)
    with t w1 show ?thesis by (simp add: synchronize_proposal_from_pass_def)
  next
    case (Inr pp)
    show ?thesis
    proof (cases pp)
      case None
      with t w1 Inr show ?thesis
        by (simp add: synchronize_proposal_from_pass_def split: option.splits sum.splits)
    next
      case (Some p)
      obtain r2 w2
        where x: "experimenters_loop env pid (PI p) (Experimenters p) [] False w1 = (r2, w2)"
        by (cases "experimenters_loop env pid (PI p) (Experimenters p) [] False w1")
      from experimenters_loop_same_store [OF x] w1
      have w2: "proposals_db w2 = proposals_db w"
        "cycles_db w2 = cycles_db w" "proposal_types_db w2 = proposal_types_db w"
        by (simp_all add: same_store_def)
      with t Inr Some x w1 show ?thesis
        by (auto simp: synchronize_proposal_from_pass_def Let_def
            split: option.splits sum.splits)
    qed
  qed
qed




section \<open>The proposal reconciler: users\<close>







lemmas reconciler_defs =
  synchronize_proposal_from_pass_def try_get_proposal_def get_proposal_def py_call_def
  pass_service_def get_saf_from_proposal_def add_pi_def upsert_proposal_def upsert_def
  written_doc_def User_def Let_def logger_def is_the_pi_def casefold_def casefold_char_def

lemmas example_defs =
  example_env_def example_proposal_def example_saf_def ada_def bob_def empty_world_def



section \<open>The proposal reconciler: the fields it writes\<close>

text \<open>
  Claim C8. Whatever the run of \<^verbatim>\<open>synchronize_proposal_from_pass\<close> (completed or failed),
  a proposal document of the store is afterwards the document it was with, at most, new
  values of title, data session, type id, type description, instruments, safety forms,
  users and last-updated: its cycles (and its proposal id) are what they were. The cycle
  documents are not written at all.
\<close>

theorem reconciler_never_writes_cycles:
  assumes "i < length (proposals_db w)"
    and "d = proposals_db w ! i"
    and "d' = proposals_db (snd (synchronize_proposal_from_pass m env pid w)) ! i"
  shows "d' = d\<lparr>title := title d', data_session := data_session d',
                 pass_type_id := pass_type_id d', proposal_type := proposal_type d',
                 instruments := instruments d', safs := safs d', users := users d',
                 last_updated := last_updated d'\<rparr> \<and>
         cycles d' = cycles d \<and>
         cycles_db (snd (synchronize_proposal_from_pass m env pid w)) = cycles_db w"
proof -
  from synchronize_proposal_effect [of m env pid w]
  have c: "cycles_db (snd (synchronize_proposal_from_pass m env pid w)) = cycles_db w"
    and "proposals_db (snd (synchronize_proposal_from_pass m env pid w)) = proposals_db w \<or>
      (\<exists>p bl sl ul. proposals_db (snd (synchronize_proposal_from_pass m env pid w)) =
          snd (upsert_proposal env pid p bl sl ul (proposals_db w)))"
    by simp_all
  then consider
    (same) "proposals_db (snd (synchronize_proposal_from_pass m env pid w)) = proposals_db w"
    | (upserted) p bl sl ul
    where "proposals_db (snd (synchronize_proposal_from_pass m env pid w)) =
          snd (upsert_proposal env pid p bl sl ul (proposals_db w))"
    by blast
  then have "d' = d\<lparr>title := title d', data_session := data_session d',
                 pass_type_id := pass_type_id d', proposal_type := proposal_type d',
                 instruments := instruments d', safs := safs d', users := users d',
                 last_updated := last_updated d'\<rparr>"
  proof cases
    case same
    with assms show ?thesis by simp
  next
    case upserted
    with assms show ?thesis
      by (simp add: upsert_proposal_def Let_def upsert_nth)
  qed
  moreover from this have "cycles d' = cycles d"
    by (metis proposal.select_convs(9) proposal.surjective proposal.update_convs(2-8,10))
  ultimately show ?thesis using c by simp
qed


section \<open>The proposal reconciler: safety forms\<close>












lemma str_int_7: "str_int 7 = ''7''"
  by code_simp

lemma str_int_8: "str_int 8 = ''8''"
  by code_simp

lemma str_int_3: "str_int 3 = ''3''"
  by code_simp

theorem reconciler_never_writes_cycles_witness:
  "title (proposals_db (snd (synchronize_proposal_from_pass pass_service example_env 7
      stored_world)) ! 0) = ''Coherent scattering'' \<and>
   cycles (proposals_db (snd (synchronize_proposal_from_pass pass_service example_env 7
      stored_world)) ! 0) = [''2024-1''] \<and>
   cycles_db (snd (synchronize_proposal_from_pass pass_service example_env 7 stored_world))
     = cycles_db stored_world"
proof -
  have i: "0 < length (proposals_db stored_world)"
    by (simp add: stored_world_def)
  have "title (proposals_db (snd (synchronize_proposal_from_pass pass_service example_env 7
      stored_world)) ! 0) = ''Coherent scattering''"
    by (simp add: reconciler_defs example_defs stored_world_def str_int_7)
  with reconciler_never_writes_cycles [OF i refl refl, of pass_service example_env 7]
  show ?thesis by (simp add: stored_world_def)
qed

section \<open>The proposal reconciler: failures\<close>

text \<open>
  Claim C3, on the code. A remote record that is absent (the request fails) or malformed
  (the validation fails) makes \<^verbatim>\<open>get_proposal\<close> log and return \<open>None\<close>; the reconciler goes
  on to fetch and build the safety forms and then fails with the AttributeError of
  \<^verbatim>\<open>pass_proposal.Resources\<close>, not with the error of the fetch. Nothing is written.
\<close>

theorem absent_proposal_ends_in_AttributeError:
  "synchronize_proposal_from_pass pass_service example_env 8 empty_world
     = (Inl AttributeError,
        empty_world\<lparr>log := [(ERROR, ''Error retrieving proposal from PASS: '',
                               Some (RemoteError ''404''))]\<rparr>) \<and>
   synchronize_proposal_from_pass pass_service
       (example_env\<lparr>remote_proposal := \<lambda>pid. Inl (ValidationError ''Title: field required'')\<rparr>)
       7 empty_world
     = (Inl AttributeError,
        empty_world\<lparr>log := [(ERROR, ''Error validating data recevied from PASS for proposal: '',
                               Some (ValidationError ''Title: field required''))]\<rparr>)"
  by (simp add: reconciler_defs example_defs)



end
